theory Spec2Isabelle
  imports Main
begin

section \<open>The track client: data model\<close>

text \<open>
  A shallow embedding of \<^verbatim>\<open>src/track/client.py\<close> (class \<^verbatim>\<open>TrackClient\<close>).
  The client mutates Python objects that are shared between the client, the storage's
  object table and the logger, so the objects live in an explicit heap and are handled
  through references; every method takes the world and returns the new one together
  with its result, and every \<^verbatim>\<open>raise\<close> and failed \<^verbatim>\<open>assert\<close> is a
  value of type \<open>error\<close>. A raised exception does not undo the mutations made before it:
  the world is returned in both cases.
\<close>

type_synonym uid = nat

datatype error =
    RuntimeError string
  | AssertionError string
  | AttributeError string
  | KeyError uid
  | LoadError string

text \<open>
  Modelled from the spec: the classes \<^verbatim>\<open>Trial\<close>, \<^verbatim>\<open>Project\<close> and
  \<^verbatim>\<open>TrialGroup\<close> of \<^verbatim>\<open>track.structure\<close> are not under src/. Their
  attributes are those of the spec's data model (section 3) and those the client reads
  and writes. An attribute that Python may hold \<^verbatim>\<open>None\<close> in is an option. The
  metrics and arguments of a Trial are written by the Logger only and are left out. The
  spec's "set of group ids" is kept as the list in which the client's loop visits it.
\<close>

record Trial =
  trial_uid :: "uid option"
  trial_project_id :: "uid option"
  trial_group_id :: "uid option"
  trial_version :: "string option"

record Project =
  project_uid :: "uid option"
  project_name :: "string option"
  project_tags :: "string list option"
  project_description :: "string option"
  project_groups :: "uid list"

record TrialGroup =
  group_uid :: "uid option"
  group_name :: "string option"
  group_tags :: "string list option"
  group_description :: "string option"
  group_trials :: "uid option list"
  group_project_id :: "uid option"

text \<open>
  A reference to a Python object names the object's class and its address among the
  objects of that class. Python is duck-typed: the object table of a Storage may hand
  back any entity where the client expects a Project or a TrialGroup.
\<close>

datatype entity = TrialR nat | ProjectR nat | GroupR nat

record heap =
  trials :: "nat \<Rightarrow> Trial"
  projects :: "nat \<Rightarrow> Project"
  groups :: "nat \<Rightarrow> TrialGroup"
  next_trial :: nat
  next_project :: nat
  next_group :: nat

text \<open>
  Modelled from the spec: the constructors \<^verbatim>\<open>Trial()\<close>,
  \<^verbatim>\<open>Project(name, tags, description)\<close> and
  \<^verbatim>\<open>TrialGroup(name, tags, description)\<close> are not under src/. A new object has
  no uid ("uid assignment is the Storage's responsibility"), belongs to nothing and holds
  empty collections. Each constructor allocates the object at the next free address.
\<close>

definition new_Trial :: "heap \<Rightarrow> nat \<times> heap" where
  "new_Trial h =
     (next_trial h,
      h\<lparr>trials := (trials h)(next_trial h :=
           \<lparr>trial_uid = None, trial_project_id = None, trial_group_id = None,
            trial_version = None\<rparr>),
        next_trial := Suc (next_trial h)\<rparr>)"

definition new_Project ::
  "string option \<Rightarrow> string list option \<Rightarrow> string option \<Rightarrow> heap \<Rightarrow> nat \<times> heap" where
  "new_Project name tags description h =
     (next_project h,
      h\<lparr>projects := (projects h)(next_project h :=
           \<lparr>project_uid = None, project_name = name, project_tags = tags,
            project_description = description, project_groups = []\<rparr>),
        next_project := Suc (next_project h)\<rparr>)"

definition new_TrialGroup ::
  "string option \<Rightarrow> string list option \<Rightarrow> string option \<Rightarrow> heap \<Rightarrow> nat \<times> heap" where
  "new_TrialGroup name tags description h =
     (next_group h,
      h\<lparr>groups := (groups h)(next_group h :=
           \<lparr>group_uid = None, group_name = name, group_tags = tags,
            group_description = description, group_trials = [], group_project_id = None\<rparr>),
        next_group := Suc (next_group h)\<rparr>)"

subsection \<open>Attribute access\<close>

text \<open>
  \<^verbatim>\<open>obj.uid\<close>: every entity has one. \<^verbatim>\<open>obj.name\<close>: a Project and a
  TrialGroup have one, a Trial (as the spec lists its attributes) has none, and Python
  raises AttributeError. \<^verbatim>\<open>obj.groups\<close> is a Project's, \<^verbatim>\<open>obj.trials\<close> a
  TrialGroup's.
\<close>

fun attr_uid :: "heap \<Rightarrow> entity \<Rightarrow> uid option" where
  "attr_uid h (TrialR i) = trial_uid (trials h i)"
| "attr_uid h (ProjectR i) = project_uid (projects h i)"
| "attr_uid h (GroupR i) = group_uid (groups h i)"

fun attr_name :: "heap \<Rightarrow> entity \<Rightarrow> error + string option" where
  "attr_name h (TrialR i) = Inl (AttributeError ''name'')"
| "attr_name h (ProjectR i) = Inr (project_name (projects h i))"
| "attr_name h (GroupR i) = Inr (group_name (groups h i))"

fun attr_groups :: "heap \<Rightarrow> entity \<Rightarrow> error + uid list" where
  "attr_groups h (ProjectR i) = Inr (project_groups (projects h i))"
| "attr_groups h (TrialR i) = Inl (AttributeError ''groups'')"
| "attr_groups h (GroupR i) = Inl (AttributeError ''groups'')"

subsection \<open>Storage\<close>

text \<open>
  Modelled from the spec: the class \<^verbatim>\<open>Storage\<close> of
  \<^verbatim>\<open>track.persistence.storage\<close> is not under src/. The spec (section 4.2): it
  "maintains a name\<rightarrow>uid index for Projects and a uid\<rightarrow>object table for all entities";
  \<^verbatim>\<open>insert_project\<close> and \<^verbatim>\<open>insert_trial\<close> "assign uid, register in table
  (and name index for Projects)". The table is an association list read with
  \<open>map_of\<close>, newest binding first. The spec does not say how a uid is chosen, only that
  it is unique: the uid assigned is the least number above every key of the table. The
  name index is keyed by \<^verbatim>\<open>project.name\<close>, which Python allows to be
  \<^verbatim>\<open>None\<close>.
\<close>

record Storage =
  project_names :: "string option \<rightharpoonup> uid"
  objects :: "(uid \<times> entity) list"

fun fresh_uid :: "(uid \<times> entity) list \<Rightarrow> uid" where
  "fresh_uid [] = 0"
| "fresh_uid ((k, e) # kvs) = max (Suc k) (fresh_uid kvs)"

definition insert_project :: "nat \<Rightarrow> Storage \<Rightarrow> heap \<Rightarrow> Storage \<times> heap" where
  "insert_project i ds h =
     (let u = fresh_uid (objects ds);
          n = project_name (projects h i)
      in (ds\<lparr>project_names := (project_names ds)(n \<mapsto> u),
             objects := (u, ProjectR i) # objects ds\<rparr>,
          h\<lparr>projects := (projects h)(i := (projects h i)\<lparr>project_uid := Some u\<rparr>)\<rparr>))"

definition insert_trial :: "nat \<Rightarrow> Storage \<Rightarrow> heap \<Rightarrow> Storage \<times> heap" where
  "insert_trial i ds h =
     (let u = fresh_uid (objects ds)
      in (ds\<lparr>objects := (u, TrialR i) # objects ds\<rparr>,
          h\<lparr>trials := (trials h)(i := (trials h i)\<lparr>trial_uid := Some u\<rparr>)\<rparr>))"

text \<open>
  \<^verbatim>\<open>load_storage\<close> of \<^verbatim>\<open>track.persistence\<close> is not under src/ and reads a
  file: it is a parameter of the model. It is given the URI and the heap, and returns the
  Storage it built, or the error it raised, and the heap holding the entities it loaded.
\<close>

type_synonym loader = "string \<Rightarrow> heap \<Rightarrow> (error + Storage) \<times> heap"

subsection \<open>The client and the world\<close>

text \<open>
  The attributes of a \<^verbatim>\<open>TrackClient\<close> that \<^verbatim>\<open>set_store\<close>,
  \<^verbatim>\<open>set_version\<close>, \<^verbatim>\<open>set_project\<close> and \<^verbatim>\<open>set_group\<close> read or
  write (the others, \<^verbatim>\<open>eta\<close>, \<^verbatim>\<open>code\<close>, \<^verbatim>\<open>stdout\<close>,
  \<^verbatim>\<open>stderr\<close> and \<^verbatim>\<open>batch_printer\<close>, are left out).

  Modelled from the spec: the class \<^verbatim>\<open>Logger\<close> and the functions
  \<^verbatim>\<open>set_current_trial\<close> and \<^verbatim>\<open>set_current_project\<close> of
  \<^verbatim>\<open>track.structure\<close> are not under src/. The Logger "records arguments and
  metrics against the current Trial" and is otherwise an opaque collaborator: of the
  calls \<^verbatim>\<open>logger.set_project\<close> and \<^verbatim>\<open>logger.set_group\<close> the world
  records that they were made and with which object, and they change no entity. The two
  functions set a global each.
\<close>

datatype logger_call = LogSetProject entity | LogSetGroup entity

record TrackClient =
  project :: "entity option"
  group :: "entity option"
  trial :: nat
  logger_backend :: string
  storage_protocol :: string
  data_store :: "Storage option"

record world =
  heap :: heap
  self :: TrackClient
  current_trial :: "nat option"
  current_project :: "entity option"
  logger_calls :: "logger_call list"

definition upd_trial :: "nat \<Rightarrow> (Trial \<Rightarrow> Trial) \<Rightarrow> world \<Rightarrow> world" where
  "upd_trial i f w = w\<lparr>heap := (heap w)\<lparr>trials := (trials (heap w))(i := f (trials (heap w) i))\<rparr>\<rparr>"

definition the_trial :: "world \<Rightarrow> Trial" where
  "the_trial w = trials (heap w) (trial (self w))"

subsection \<open>\<^verbatim>\<open>str.replace\<close>\<close>

text \<open>
  Python's \<^verbatim>\<open>s.replace(old, new)\<close>: the occurrences of \<open>old\<close> are found from left
  to right, without overlap, and each is replaced by \<open>new\<close>. For an empty \<open>old\<close>,
  \<open>new\<close> is put before every character and at the end.
\<close>

function replace :: "string \<Rightarrow> string \<Rightarrow> string \<Rightarrow> string" where
  "replace s old new =
     (if old = [] then concat (map (\<lambda>c. new @ [c]) s) @ new
      else if s = [] then []
      else if take (length old) s = old then new @ replace (drop (length old) s) old new
      else hd s # replace (tl s) old new)"
  by pat_completeness auto
termination
  by (relation "measure (\<lambda>(s, old, new). length s)") auto

text \<open>\<open>old\<close> occurs in \<open>s\<close> at position \<open>i\<close>.\<close>

definition occurs_at :: "string \<Rightarrow> string \<Rightarrow> nat \<Rightarrow> bool" where
  "occurs_at old s i = (take (length old) (drop i s) = old)"

subsection \<open>\<^verbatim>\<open>TrackClient.set_version\<close> (client.py, lines 63-72)\<close>

text \<open>
  \<^verbatim>\<open>default_version_hash\<close> of \<^verbatim>\<open>track.versioning\<close> is not under src/: it is a
  parameter. A version function is a callable without arguments that returns a string.
\<close>

definition set_version ::
  "(unit \<Rightarrow> string) \<Rightarrow> world \<Rightarrow> string option \<Rightarrow> (unit \<Rightarrow> string) option \<Rightarrow> world" where
  "set_version default_version_hash w version version_fun =
     (let version_fun' = (case version_fun of None \<Rightarrow> default_version_hash | Some f \<Rightarrow> f)
      in case version of
           None \<Rightarrow> upd_trial (trial (self w)) (\<lambda>t. t\<lparr>trial_version := Some (version_fun' ())\<rparr>) w
         | Some v \<Rightarrow> upd_trial (trial (self w)) (\<lambda>t. t\<lparr>trial_version := Some v\<rparr>) w)"

subsection \<open>\<^verbatim>\<open>TrackClient.__init__\<close> (client.py, lines 26-49)\<close>

definition init :: "(unit \<Rightarrow> string) \<Rightarrow> heap \<Rightarrow> string \<Rightarrow> string \<Rightarrow> world" where
  "init default_version_hash h backend storage =
     (case new_Trial h of (t, h') \<Rightarrow>
        set_version default_version_hash
          \<lparr>heap = h',
           self = \<lparr>project = None, group = None, trial = t, logger_backend = backend,
                   storage_protocol = storage, data_store = None\<rparr>,
           current_trial = Some t, current_project = None, logger_calls = []\<rparr>
          None None)"

subsection \<open>\<^verbatim>\<open>TrackClient.set_store\<close> (client.py, lines 51-61)\<close>

text \<open>Line 60: \<^verbatim>\<open>self.data_store = load_storage(store)\<close>.\<close>

definition load_data_store :: "loader \<Rightarrow> world \<Rightarrow> string \<Rightarrow> (error + unit) \<times> world" where
  "load_data_store load_storage w store =
     (case load_storage store (heap w) of
        (Inl e, h) \<Rightarrow> (Inl e, w\<lparr>heap := h\<rparr>)
      | (Inr ds, h) \<Rightarrow> (Inr (), w\<lparr>heap := h, self := (self w)\<lparr>data_store := Some ds\<rparr>\<rparr>))"

text \<open>
  The method returns \<^verbatim>\<open>self\<close>; the model returns the world. Reading
  \<^verbatim>\<open>self.project.name\<close> can raise, before anything is changed.
\<close>

definition set_store ::
  "loader \<Rightarrow> world \<Rightarrow> string \<Rightarrow> string option \<Rightarrow> bool \<Rightarrow> (error + unit) \<times> world" where
  "set_store load_storage w store name force =
     (case (case (name, project (self w)) of
              (None, Some p) \<Rightarrow> attr_name (heap w) p
            | _ \<Rightarrow> Inr name) of
        Inl e \<Rightarrow> (Inl e, w)
      | Inr name' \<Rightarrow>
          (let store' = (case name' of
                           Some n \<Rightarrow> replace store ''${project}'' n
                         | None \<Rightarrow> store)
           in if data_store (self w) = None \<or> force then load_data_store load_storage w store'
              else (Inr (), w)))"

subsection \<open>\<^verbatim>\<open>TrackClient.set_project\<close> (client.py, lines 74-98)\<close>

text \<open>The decimal digits of a uid, for the message of the assertion at line 84.\<close>

function str_uid :: "uid \<Rightarrow> string" where
  "str_uid n =
     (if n < 10 then [''0123456789'' ! n]
      else str_uid (n div 10) @ [''0123456789'' ! (n mod 10)])"
  by pat_completeness auto
termination
  by (relation "measure id") auto

text \<open>
  Lines 78-85: the look-up in the storage's name index. \<^verbatim>\<open>dict.get\<close> gives
  \<^verbatim>\<open>None\<close> for a missing key; a uid in the index without an object in the table
  fails the assertion.
\<close>

definition lookup_project ::
  "Storage \<Rightarrow> entity option \<Rightarrow> string option \<Rightarrow> error + entity option" where
  "lookup_project ds project0 name =
     (case name of
        None \<Rightarrow> Inr project0
      | Some n \<Rightarrow>
          (case project_names ds (Some n) of
             None \<Rightarrow> Inr project0
           | Some project_id \<Rightarrow>
               (case map_of (objects ds) project_id of
                  None \<Rightarrow> Inl (AssertionError
                    (''Project (id: '' @ str_uid project_id @
                     '') was found in index but missing in the data table''))
                | Some p \<Rightarrow> Inr (Some p))))"

text \<open>Lines 87-91: without a project so far, one is created and inserted.\<close>

definition create_project ::
  "world \<Rightarrow> Storage \<Rightarrow> entity option \<Rightarrow> string option \<Rightarrow> string list option \<Rightarrow>
     string option \<Rightarrow> (error + entity) \<times> world" where
  "create_project w ds project0 name tags description =
     (case project0 of
        Some p \<Rightarrow> (Inr p, w)
      | None \<Rightarrow>
          (case name of
             None \<Rightarrow> (Inl (AssertionError ''Project need to have a unique name''), w)
           | Some n \<Rightarrow>
               (case new_Project (Some n) tags description (heap w) of
                  (i, h) \<Rightarrow>
                    (case insert_project i ds h of
                       (ds', h') \<Rightarrow>
                         (Inr (ProjectR i),
                          w\<lparr>heap := h', self := (self w)\<lparr>data_store := Some ds'\<rparr>\<rparr>)))))"

text \<open>
  Lines 93-97: the trial is bound to the project, the project becomes the current one,
  and the trial is inserted in the storage.
\<close>

definition bind_project :: "world \<Rightarrow> entity \<Rightarrow> world" where
  "bind_project w p =
     (let w1 = upd_trial (trial (self w)) (\<lambda>t. t\<lparr>trial_project_id := attr_uid (heap w) p\<rparr>) w;
          w2 = w1\<lparr>current_project := Some p\<rparr>;
          w3 = w2\<lparr>self := (self w2)\<lparr>project := Some p\<rparr>\<rparr>;
          w4 = w3\<lparr>logger_calls := logger_calls w3 @ [LogSetProject p]\<rparr>
      in case data_store (self w4) of
           None \<Rightarrow> w4
         | Some ds \<Rightarrow>
             (case insert_trial (trial (self w4)) ds (heap w4) of
                (ds', h') \<Rightarrow> w4\<lparr>heap := h', self := (self w4)\<lparr>data_store := Some ds'\<rparr>\<rparr>))"

text \<open>
  The method. Its parameter \<^verbatim>\<open>project\<close> is \<open>project0\<close> here (and
  \<^verbatim>\<open>group\<close> is \<open>group0\<close> in \<^verbatim>\<open>set_group\<close>): the plain names are the
  client's attributes. After \<^verbatim>\<open>set_store\<close> has returned, \<^verbatim>\<open>self.data_store\<close> is a
  Storage (lemma \<open>set_store_data_store\<close> below), so the branch for \<^verbatim>\<open>None\<close> is
  never taken; it holds the error Python would raise at line 79.
\<close>

definition set_project ::
  "loader \<Rightarrow> world \<Rightarrow> entity option \<Rightarrow> string option \<Rightarrow> string list option \<Rightarrow>
     string option \<Rightarrow> (error + entity) \<times> world" where
  "set_project load_storage w project0 name tags description =
     (case set_store load_storage w (storage_protocol (self w)) name False of
        (Inl e, w1) \<Rightarrow> (Inl e, w1)
      | (Inr _, w1) \<Rightarrow>
          (case data_store (self w1) of
             None \<Rightarrow> (Inl (AttributeError ''project_names''), w1)
           | Some ds \<Rightarrow>
               (case lookup_project ds project0 name of
                  Inl e \<Rightarrow> (Inl e, w1)
                | Inr project1 \<Rightarrow>
                    (case create_project w1 ds project1 name tags description of
                       (Inl e, w2) \<Rightarrow> (Inl e, w2)
                     | (Inr p, w2) \<Rightarrow> (Inr p, bind_project w2 p)))))"

subsection \<open>\<^verbatim>\<open>TrackClient.set_group\<close> (client.py, lines 100-119)\<close>

text \<open>
  Lines 105-108: the loop over the project's group ids. It has no \<^verbatim>\<open>break\<close>: the
  last group with the name wins. \<^verbatim>\<open>objects[gid]\<close> raises KeyError for a uid
  that is not in the table, and \<^verbatim>\<open>self.data_store\<close> may still be \<^verbatim>\<open>None\<close>.
\<close>

fun find_group ::
  "heap \<Rightarrow> Storage option \<Rightarrow> string option \<Rightarrow> uid list \<Rightarrow> entity option \<Rightarrow>
     error + entity option" where
  "find_group h ds name [] group0 = Inr group0"
| "find_group h ds name (gid # gids) group0 =
     (case ds of
        None \<Rightarrow> Inl (AttributeError ''objects'')
      | Some st \<Rightarrow>
          (case map_of (objects st) gid of
             None \<Rightarrow> Inl (KeyError gid)
           | Some g \<Rightarrow>
               (case attr_name h g of
                  Inl e \<Rightarrow> Inl e
                | Inr n \<Rightarrow> find_group h ds name gids (if n = name then Some g else group0))))"

definition lookup_group ::
  "world \<Rightarrow> entity \<Rightarrow> entity option \<Rightarrow> string option \<Rightarrow> error + entity option" where
  "lookup_group w p group0 name =
     (case attr_groups (heap w) p of
        Inl e \<Rightarrow> Inl e
      | Inr gids \<Rightarrow> find_group (heap w) (data_store (self w)) name gids group0)"

text \<open>
  \<^verbatim>\<open>obj.project_id = v\<close>. A TrialGroup and a Trial have the attribute. On a Project
  Python would add a new attribute, which the data model does not have: the object is
  left as it is.
\<close>

fun set_attr_project_id :: "entity \<Rightarrow> uid option \<Rightarrow> heap \<Rightarrow> heap" where
  "set_attr_project_id (GroupR i) v h =
     h\<lparr>groups := (groups h)(i := (groups h i)\<lparr>group_project_id := v\<rparr>)\<rparr>"
| "set_attr_project_id (TrialR i) v h =
     h\<lparr>trials := (trials h)(i := (trials h i)\<lparr>trial_project_id := v\<rparr>)\<rparr>"
| "set_attr_project_id (ProjectR i) v h = h"

text \<open>\<^verbatim>\<open>obj.trials.append(v)\<close>: only a TrialGroup has a list of trials.\<close>

fun trials_append :: "entity \<Rightarrow> uid option \<Rightarrow> heap \<Rightarrow> error + heap" where
  "trials_append (GroupR i) v h =
     Inr (h\<lparr>groups := (groups h)(i := (groups h i)\<lparr>group_trials := group_trials (groups h i) @ [v]\<rparr>)\<rparr>)"
| "trials_append (TrialR i) v h = Inl (AttributeError ''trials'')"
| "trials_append (ProjectR i) v h = Inl (AttributeError ''trials'')"

text \<open>Lines 110-111: without a group so far, one is created. It is inserted nowhere.\<close>

definition create_group ::
  "world \<Rightarrow> entity option \<Rightarrow> string option \<Rightarrow> string list option \<Rightarrow> string option \<Rightarrow>
     entity \<times> world" where
  "create_group w group0 name tags description =
     (case group0 of
        Some g \<Rightarrow> (g, w)
      | None \<Rightarrow>
          (case new_TrialGroup name tags description (heap w) of
             (i, h) \<Rightarrow> (GroupR i, w\<lparr>heap := h\<rparr>)))"

text \<open>Lines 113-119, for the current project \<open>p\<close> and the group \<open>g\<close>.\<close>

definition bind_group :: "world \<Rightarrow> entity \<Rightarrow> entity \<Rightarrow> (error + entity) \<times> world" where
  "bind_group w p g =
     (let w1 = w\<lparr>heap := set_attr_project_id g (attr_uid (heap w) p) (heap w)\<rparr>;
          w2 = upd_trial (trial (self w1)) (\<lambda>t. t\<lparr>trial_group_id := attr_uid (heap w1) g\<rparr>) w1;
          w3 = w2\<lparr>self := (self w2)\<lparr>group := Some g\<rparr>\<rparr>
      in case trials_append g (trial_uid (the_trial w3)) (heap w3) of
           Inl e \<Rightarrow> (Inl e, w3)
         | Inr h \<Rightarrow>
             (Inr g, w3\<lparr>heap := h, logger_calls := logger_calls w3 @ [LogSetGroup g]\<rparr>))"

definition set_group ::
  "world \<Rightarrow> entity option \<Rightarrow> string option \<Rightarrow> string list option \<Rightarrow> string option \<Rightarrow>
     (error + entity) \<times> world" where
  "set_group w group0 name tags description =
     (case project (self w) of
        None \<Rightarrow> (Inl (RuntimeError ''Project needs to be set to define a group''), w)
      | Some p \<Rightarrow>
          (case lookup_group w p group0 name of
             Inl e \<Rightarrow> (Inl e, w)
           | Inr group1 \<Rightarrow>
               (case create_group w group1 name tags description of
                  (g, w1) \<Rightarrow> bind_group w1 p g)))"

text \<open>
  A caller that makes the same call to \<^verbatim>\<open>set_group\<close> \<open>n\<close> times in a row, and
  stops at the first exception.
\<close>

fun set_group_repeat ::
  "nat \<Rightarrow> world \<Rightarrow> entity option \<Rightarrow> string option \<Rightarrow> string list option \<Rightarrow>
     string option \<Rightarrow> (error + unit) \<times> world" where
  "set_group_repeat 0 w group0 name tags description = (Inr (), w)"
| "set_group_repeat (Suc n) w group0 name tags description =
     (case set_group w group0 name tags description of
        (Inl e, w1) \<Rightarrow> (Inl e, w1)
      | (Inr g, w1) \<Rightarrow> set_group_repeat n w1 group0 name tags description)"

subsection \<open>\<^verbatim>\<open>TrackClient.__getattr__\<close> (client.py, lines 137-153)\<close>

text \<open>
  Modelled from the spec: the class \<^verbatim>\<open>Logger\<close> is not under src/, and its backend
  is "an opaque collaborator". Here they are what \<^verbatim>\<open>hasattr\<close> and
  \<^verbatim>\<open>getattr\<close> see of \<^verbatim>\<open>self.logger\<close> and
  \<^verbatim>\<open>self.logger.backend\<close>: the attributes each exposes, by name. \<open>'v\<close> is the
  type of attribute values.
\<close>

record 'v Logger =
  logger_attrs :: "string \<rightharpoonup> 'v"
  backend_attrs :: "string \<rightharpoonup> 'v"

definition hasattr :: "(string \<rightharpoonup> 'v) \<Rightarrow> string \<Rightarrow> bool" where
  "hasattr obj item = (obj item \<noteq> None)"

definition getattr :: "(string \<rightharpoonup> 'v) \<Rightarrow> string \<Rightarrow> error + 'v" where
  "getattr obj item = (case obj item of None \<Rightarrow> Inl (AttributeError item) | Some v \<Rightarrow> Inr v)"

definition dunder_getattr :: "'v Logger \<Rightarrow> string \<Rightarrow> error + 'v" where
  "dunder_getattr logger item =
     (if hasattr (logger_attrs logger) item then getattr (logger_attrs logger) item
      else if hasattr (backend_attrs logger) item then getattr (backend_attrs logger) item
      else Inl (AttributeError item))"

text \<open>
  Python's attribute access on the client, \<^verbatim>\<open>client.item\<close>: the attributes defined
  on the client (instance and class) are looked up first, and \<^verbatim>\<open>__getattr__\<close> is
  called only when that look-up finds nothing.
\<close>

definition client_attr :: "(string \<rightharpoonup> 'v) \<Rightarrow> 'v Logger \<Rightarrow> string \<Rightarrow> error + 'v" where
  "client_attr defined logger item =
     (case defined item of
        Some v \<Rightarrow> Inr v
      | None \<Rightarrow> dunder_getattr logger item)"

section \<open>Concrete runs\<close>

text \<open>
  A heap without objects, two loaders, and a client as \<^verbatim>\<open>TrackClient()\<close> builds
  it. \<open>no_file\<close> is \<^verbatim>\<open>load_storage\<close> where no file exists yet: it gives an empty
  Storage whatever the URI. \<open>unreadable\<close> raises, reporting the URI it was given.
\<close>

definition empty_heap :: heap where
  "empty_heap =
     \<lparr>trials = (\<lambda>_. \<lparr>trial_uid = None, trial_project_id = None, trial_group_id = None,
                      trial_version = None\<rparr>),
      projects = (\<lambda>_. \<lparr>project_uid = None, project_name = None, project_tags = None,
                        project_description = None, project_groups = []\<rparr>),
      groups = (\<lambda>_. \<lparr>group_uid = None, group_name = None, group_tags = None,
                      group_description = None, group_trials = [], group_project_id = None\<rparr>),
      next_trial = 0, next_project = 0, next_group = 0\<rparr>"

definition no_file :: loader where
  "no_file uri h = (Inr \<lparr>project_names = Map.empty, objects = []\<rparr>, h)"

definition unreadable :: loader where
  "unreadable uri h = (Inl (LoadError uri), h)"

definition client0 :: world where
  "client0 = init (\<lambda>_. ''v0'') empty_heap ''none'' ''file://${project}.json''"

text \<open>\<^verbatim>\<open>client.set_project(name='p')\<close> on the new client.\<close>

definition client1 :: world where
  "client1 = snd (set_project no_file client0 None (Some ''p'') None None)"

text \<open>\<^verbatim>\<open>client.set_group(name='g')\<close>, once and twice.\<close>

definition client2 :: world where
  "client2 = snd (set_group client1 None (Some ''g'') None None)"

definition client3 :: world where
  "client3 = snd (set_group client2 None (Some ''g'') None None)"

text \<open>
  A client whose storage was loaded from a file written by an earlier run: it holds the
  project \<open>p\<close> (uid 0) with the group \<open>g\<close> (uid 1) and that run's trial (uid 2).
  \<open>stored_file\<close> is \<^verbatim>\<open>load_storage\<close> for that file, called by the new client:
  it builds the three entities beside the client's own trial.
  \<open>client_stored\<close> is the client after \<^verbatim>\<open>client.set_project(name='p')\<close>.
\<close>

definition stored_file :: loader where
  "stored_file uri h =
     (Inr \<lparr>project_names = [Some ''p'' \<mapsto> 0],
           objects = [(2, TrialR 1), (1, GroupR 0), (0, ProjectR 0)]\<rparr>,
      h\<lparr>trials := (trials h)(1 :=
          \<lparr>trial_uid = Some 2, trial_project_id = Some 0, trial_group_id = Some 1,
           trial_version = Some ''v0''\<rparr>),
        projects := (projects h)(0 :=
          \<lparr>project_uid = Some 0, project_name = Some ''p'', project_tags = None,
           project_description = None, project_groups = [1]\<rparr>),
        groups := (groups h)(0 :=
          \<lparr>group_uid = Some 1, group_name = Some ''g'', group_tags = None,
           group_description = None, group_trials = [Some 2], group_project_id = Some 0\<rparr>),
        next_trial := 2, next_project := 1, next_group := 1\<rparr>)"

definition client_stored :: world where
  "client_stored = snd (set_project stored_file client0 None (Some ''p'') None None)"

section \<open>Properties of the client\<close>

declare replace.simps [simp del] str_uid.simps [simp del]

lemmas run_defs =
  replace.simps init_def set_version_def upd_trial_def new_Trial_def
  set_store_def load_data_store_def
  set_project_def lookup_project_def create_project_def new_Project_def insert_project_def
  bind_project_def insert_trial_def
  set_group_def lookup_group_def create_group_def new_TrialGroup_def bind_group_def the_trial_def

lemmas client1_defs = client1_def client0_def no_file_def empty_heap_def

subsection \<open>\<^verbatim>\<open>set_store\<close> and \<^verbatim>\<open>set_version\<close>\<close>

lemma load_data_store_Inr:
  "load_data_store ld w store = (Inr u, w1) \<Longrightarrow> data_store (self w1) \<noteq> None"
  unfolding load_data_store_def
  by (cases "ld store (heap w)"; cases "fst (ld store (heap w))") auto

text \<open>When \<^verbatim>\<open>set_store\<close> returns, the client has a Storage.\<close>

lemma set_store_data_store:
  "set_store ld w store name force = (Inr u, w1) \<Longrightarrow> data_store (self w1) \<noteq> None"
  unfolding set_store_def Let_def
  by (auto split: sum.splits if_splits dest: load_data_store_Inr)

text \<open>
  \<open>replace\<close> is Python's \<^verbatim>\<open>str.replace\<close>: a string without an occurrence of
  \<open>old\<close> is returned as it is, and up to the first occurrence the string is kept, the
  occurrence becomes \<open>new\<close>, and the rest is treated the same way.
\<close>

lemma replace_Nil: "old \<noteq> [] \<Longrightarrow> replace [] old new = []"
  by (simp add: replace.simps)

lemma replace_match:
  "old \<noteq> [] \<Longrightarrow> replace (old @ b) old new = new @ replace b old new"
  by (subst replace.simps) simp

lemma replace_no_match:
  "old \<noteq> [] \<Longrightarrow> take (length old) (c # cs) \<noteq> old \<Longrightarrow>
   replace (c # cs) old new = c # replace cs old new"
  by (subst replace.simps) simp

lemma replace_unchanged:
  "old \<noteq> [] \<Longrightarrow> (\<forall>i. \<not> occurs_at old s i) \<Longrightarrow> replace s old new = s"
proof (induction s)
  case Nil
  then show ?case by (simp add: replace_Nil)
next
  case (Cons c cs)
  have "\<not> occurs_at old (c # cs) 0" using Cons.prems by blast
  then have nm: "take (length old) (c # cs) \<noteq> old" by (simp add: occurs_at_def)
  have "\<forall>i. \<not> occurs_at old cs i"
  proof
    fix i
    have "\<not> occurs_at old (c # cs) (Suc i)" using Cons.prems by blast
    then show "\<not> occurs_at old cs i" by (simp add: occurs_at_def)
  qed
  with Cons have "replace cs old new = cs" by blast
  with nm Cons.prems show ?case by (simp add: replace_no_match)
qed

lemma replace_first:
  "old \<noteq> [] \<Longrightarrow> (\<forall>i<length a. \<not> occurs_at old (a @ old @ b) i) \<Longrightarrow>
   replace (a @ old @ b) old new = a @ new @ replace b old new"
proof (induction a)
  case Nil
  then show ?case by (simp add: replace_match)
next
  case (Cons c cs)
  have "\<not> occurs_at old ((c # cs) @ old @ b) 0" using Cons.prems by auto
  then have nm: "take (length old) (c # (cs @ old @ b)) \<noteq> old" by (simp add: occurs_at_def)
  have "\<forall>i<length cs. \<not> occurs_at old (cs @ old @ b) i"
  proof (intro allI impI)
    fix i assume "i < length cs"
    then have "\<not> occurs_at old ((c # cs) @ old @ b) (Suc i)" using Cons.prems by auto
    then show "\<not> occurs_at old (cs @ old @ b) i" by (simp add: occurs_at_def)
  qed
  with Cons have "replace (cs @ old @ b) old new = cs @ new @ replace b old new" by blast
  with nm Cons.prems show ?case by (simp add: replace_no_match)
qed

text \<open>
  Claim C6. When \<^verbatim>\<open>set_store\<close> loads a storage (\<^verbatim>\<open>data_store\<close> is
  \<^verbatim>\<open>None\<close>, or \<^verbatim>\<open>force\<close>): with a name, passed as \<^verbatim>\<open>name\<close> or else
  taken from the current project, the loader is given the store string with the
  occurrences of \<^verbatim>\<open>${project}\<close> replaced by the name; with no name (none passed,
  and no current project or one whose name is \<^verbatim>\<open>None\<close>) it is given the store
  string as it is.
\<close>

theorem set_store_substitutes:
  assumes "data_store (self w) = None \<or> force"
  shows "((name = Some n \<or>
           name = None \<and> (\<exists>p. project (self w) = Some p \<and> attr_name (heap w) p = Inr (Some n))) \<longrightarrow>
          set_store ld w store name force =
            load_data_store ld w (replace store ''${project}'' n)) \<and>
         ((name = None \<and>
           (project (self w) = None \<or>
            (\<exists>p. project (self w) = Some p \<and> attr_name (heap w) p = Inr None))) \<longrightarrow>
          set_store ld w store name force = load_data_store ld w store)"
  using assms unfolding set_store_def Let_def
  by (auto split: option.splits)

theorem set_store_substitutes_witness:
  "(data_store (self client0) = None \<or> False) \<and>
   set_store unreadable client0 ''db/${project}/${project}.json'' (Some ''p'') False =
     (Inl (LoadError ''db/p/p.json''), client0) \<and>
   set_store unreadable client0 ''db/${project}/${project}.json'' None False =
     (Inl (LoadError ''db/${project}/${project}.json''), client0) \<and>
   set_store unreadable client1 ''db/${project}/${project}.json'' None True =
     (Inl (LoadError ''db/p/p.json''), client1)"
proof -
  have h0: "data_store (self client0) = None \<or> False"
    by (simp add: client0_def init_def set_version_def upd_trial_def new_Trial_def)
  have p0: "project (self client0) = None"
    by (simp add: client0_def init_def set_version_def upd_trial_def new_Trial_def)
  have h1: "data_store (self client1) = None \<or> True" by simp
  have p1: "project (self client1) = Some (ProjectR 0) \<and>
            attr_name (heap client1) (ProjectR 0) = Inr (Some ''p'')"
    by (simp add: run_defs client1_defs)
  have r: "replace ''db/${project}/${project}.json'' ''${project}'' ''p'' = ''db/p/p.json''"
    by (simp add: replace.simps)
  have l: "\<And>w s. load_data_store unreadable w s = (Inl (LoadError s), w)"
    by (simp add: load_data_store_def unreadable_def)
  show ?thesis
    using h0 p0 p1 r l
      set_store_substitutes [OF h0, of "Some ''p''" "''p''" unreadable "''db/${project}/${project}.json''"]
      set_store_substitutes [OF h0, of None "''p''" unreadable "''db/${project}/${project}.json''"]
      set_store_substitutes [OF h1, of None "''p''" unreadable "''db/${project}/${project}.json''"]
    by simp
qed

text \<open>
  Claim C7. After \<^verbatim>\<open>set_version\<close>, the trial's version is the explicit version
  string when one is given; otherwise it is the result of the version function that was
  supplied, and of \<^verbatim>\<open>default_version_hash\<close> when none was.
\<close>

theorem set_version_stamps:
  "trial_version (the_trial (set_version default_version_hash w version version_fun)) =
     Some (case version of
             Some v \<Rightarrow> v
           | None \<Rightarrow> (case version_fun of Some f \<Rightarrow> f () | None \<Rightarrow> default_version_hash ()))"
  by (simp add: set_version_def the_trial_def upd_trial_def split: option.splits)

text \<open>
  Claim C8. On a client whose \<^verbatim>\<open>data_store\<close> is set, \<^verbatim>\<open>set_store\<close> without
  \<^verbatim>\<open>force\<close> changes nothing: the Storage stays, and nothing is loaded (the loader
  is not run on the heap). So a Storage is loaded only when \<^verbatim>\<open>data_store\<close> is
  \<^verbatim>\<open>None\<close> or \<^verbatim>\<open>force\<close> is true.
\<close>

theorem set_store_keeps_data_store:
  "data_store (self w) \<noteq> None \<Longrightarrow> \<not> force \<Longrightarrow> snd (set_store ld w store name force) = w"
  unfolding set_store_def Let_def
  by (auto split: sum.splits)

theorem set_store_keeps_data_store_witness:
  "data_store (self client1) \<noteq> None \<and> \<not> False \<and>
   snd (set_store unreadable client1 ''file://other.json'' (Some ''q'') False) = client1"
proof -
  have h: "data_store (self client1) \<noteq> None"
    by (simp add: run_defs client1_defs)
  show ?thesis using h set_store_keeps_data_store [OF h, of False] by simp
qed

subsection \<open>\<^verbatim>\<open>set_project\<close>\<close>

text \<open>
  Claim C5. \<^verbatim>\<open>set_project\<close> with neither a name nor a Project fails: once
  \<^verbatim>\<open>set_store\<close> has returned, the assertion of line 88 fails, and the world is
  the one \<^verbatim>\<open>set_store\<close> left, with no project created or inserted. (When
  \<^verbatim>\<open>set_store\<close> itself raises, that error is the outcome. Assertions are taken
  as Python runs them by default, not stripped by \<^verbatim>\<open>-O\<close>.)
\<close>

theorem set_project_without_name:
  "set_project ld w None None tags description =
     (case set_store ld w (storage_protocol (self w)) None False of
        (Inl e, w1) \<Rightarrow> (Inl e, w1)
      | (Inr u, w1) \<Rightarrow> (Inl (AssertionError ''Project need to have a unique name''), w1))"
proof (cases "set_store ld w (storage_protocol (self w)) None False")
  case (Pair r w1)
  show ?thesis
  proof (cases r)
    case (Inl e)
    with Pair show ?thesis by (simp add: set_project_def)
  next
    case (Inr u)
    with Pair obtain ds where "data_store (self w1) = Some ds"
      using set_store_data_store by fastforce
    with Pair Inr show ?thesis
      by (simp add: set_project_def lookup_project_def create_project_def)
  qed
qed

text \<open>A uid in the table is below the uid the storage assigns next.\<close>

lemma fresh_uid_above: "map_of kvs k = Some e \<Longrightarrow> k < fresh_uid kvs"
  by (induction kvs rule: fresh_uid.induct) (auto split: if_splits)

lemma lookup_project_insert_trial:
  assumes "lookup_project ds p0 name = Inr (Some e)"
  shows "lookup_project (fst (insert_trial t ds h)) p0 name = Inr (Some e)"
proof (cases name)
  case None
  with assms show ?thesis by (simp add: lookup_project_def insert_trial_def Let_def)
next
  case (Some n)
  show ?thesis
  proof (cases "project_names ds (Some n)")
    case None
    with Some assms show ?thesis by (simp add: lookup_project_def insert_trial_def Let_def)
  next
    case (Some pid)
    with \<open>name = Some n\<close> assms have m: "map_of (objects ds) pid = Some e"
      by (simp add: lookup_project_def split: option.splits)
    then have "pid < fresh_uid (objects ds)" by (rule fresh_uid_above)
    with m Some \<open>name = Some n\<close> show ?thesis
      by (simp add: lookup_project_def insert_trial_def Let_def)
  qed
qed

lemma create_project_lookup:
  assumes "data_store (self wa) = Some ds"
      and "lookup_project ds p0 name = Inr pr1"
      and "create_project wa ds pr1 name tags description = (Inr e, wb)"
  shows "\<exists>dsb. data_store (self wb) = Some dsb \<and> lookup_project dsb p0 name = Inr (Some e) \<and>
               project (self wb) = project (self wa) \<and> trial (self wb) = trial (self wa) \<and>
               storage_protocol (self wb) = storage_protocol (self wa)"
proof (cases pr1)
  case (Some p)
  with assms show ?thesis by (simp add: create_project_def)
next
  case None
  with assms(3) obtain n where n: "name = Some n"
    by (cases name) (simp_all add: create_project_def)
  from assms(2) None n have idx: "project_names ds (Some n) = None"
    by (simp add: lookup_project_def split: option.splits)
  from assms(3) None n show ?thesis
    by (auto simp: create_project_def new_Project_def insert_project_def Let_def
          lookup_project_def)
qed


lemma bind_project_data_store:
  assumes "data_store (self wb) = Some dsb" and "lookup_project dsb p0 name = Inr (Some e)"
  shows "\<exists>ds1. data_store (self (bind_project wb p)) = Some ds1 \<and>
               lookup_project ds1 p0 name = Inr (Some e)"
proof -
  let ?h = "(heap wb)\<lparr>trials := (trials (heap wb))(trial (self wb) :=
              (trials (heap wb) (trial (self wb)))\<lparr>trial_project_id := attr_uid (heap wb) p\<rparr>)\<rparr>"
  have "data_store (self (bind_project wb p)) =
          Some (fst (insert_trial (trial (self wb)) dsb ?h))"
    using assms(1)
    by (simp add: bind_project_def upd_trial_def Let_def split: prod.splits)
  moreover have "lookup_project (fst (insert_trial (trial (self wb)) dsb ?h)) p0 name =
      Inr (Some e)"
    using assms(2) by (rule lookup_project_insert_trial)
  ultimately show ?thesis by blast
qed

lemma bind_project_frame:
  "projects (heap (bind_project w p)) = projects (heap w) \<and>
   next_project (heap (bind_project w p)) = next_project (heap w) \<and>
   project (self (bind_project w p)) = Some p \<and>
   storage_protocol (self (bind_project w p)) = storage_protocol (self w)"
  by (simp add: bind_project_def upd_trial_def insert_trial_def Let_def split: option.splits)

text \<open>
  Claim C2. When \<^verbatim>\<open>set_project\<close> has returned a Project, the same call made again
  (whatever tags and description it passes) returns the same Project object with the same
  uid, and creates no Project: the second call finds in the name index the project the
  first call found or created there.
\<close>

theorem set_project_idempotent:
  assumes "set_project ld w p0 name tags description = (Inr (ProjectR i), w1)"
  shows "\<exists>w2. set_project ld w1 p0 name tags' description' = (Inr (ProjectR i), w2) \<and>
              project_uid (projects (heap w2) i) = project_uid (projects (heap w1) i) \<and>
              next_project (heap w2) = next_project (heap w1)"
proof -
  obtain r wa where s: "set_store ld w (storage_protocol (self w)) name False = (r, wa)"
    by (cases "set_store ld w (storage_protocol (self w)) name False")
  with assms obtain u where r: "r = Inr u"
    by (cases r) (simp_all add: set_project_def)
  with s obtain ds where ds: "data_store (self wa) = Some ds"
    using set_store_data_store by fastforce
  from assms s r ds obtain pr1 where l: "lookup_project ds p0 name = Inr pr1"
    by (cases "lookup_project ds p0 name") (simp_all add: set_project_def)
  obtain c wb where c: "create_project wa ds pr1 name tags description = (c, wb)"
    by (cases "create_project wa ds pr1 name tags description")
  with assms s r ds l have c': "c = Inr (ProjectR i)" and w1: "w1 = bind_project wb (ProjectR i)"
    by (cases c; simp add: set_project_def)+
  from create_project_lookup [OF ds l c [unfolded c']] obtain dsb where
    dsb: "data_store (self wb) = Some dsb" and
    lb: "lookup_project dsb p0 name = Inr (Some (ProjectR i))"
    by blast
  from bind_project_data_store [OF dsb lb, of "ProjectR i"] w1 obtain ds1 where
    ds1: "data_store (self w1) = Some ds1" and
    l1: "lookup_project ds1 p0 name = Inr (Some (ProjectR i))"
    by blast
  have p1: "project (self w1) = Some (ProjectR i)"
    using w1 bind_project_frame by simp
  have s1: "set_store ld w1 (storage_protocol (self w1)) name False = (Inr (), w1)"
    using ds1 p1 by (simp add: set_store_def Let_def split: option.splits)
  have "set_project ld w1 p0 name tags' description' =
      (Inr (ProjectR i), bind_project w1 (ProjectR i))"
    using s1 ds1 l1 by (simp add: set_project_def create_project_def)
  moreover have "project_uid (projects (heap (bind_project w1 (ProjectR i))) i) =
      project_uid (projects (heap w1) i)"
    using bind_project_frame by simp
  moreover have "next_project (heap (bind_project w1 (ProjectR i))) = next_project (heap w1)"
    using bind_project_frame by simp
  ultimately show ?thesis by blast
qed

theorem set_project_idempotent_witness:
  "set_project no_file client0 None (Some ''p'') None None = (Inr (ProjectR 0), client1) \<and>
   (\<exists>w2. set_project no_file client1 None (Some ''p'') (Some [''t'']) None =
           (Inr (ProjectR 0), w2) \<and>
         project_uid (projects (heap w2) 0) = Some 0 \<and>
         next_project (heap w2) = 1)"
proof -
  have "fst (set_project no_file client0 None (Some ''p'') None None) = Inr (ProjectR 0)"
    by (simp add: run_defs client1_defs)
  then have h: "set_project no_file client0 None (Some ''p'') None None =
      (Inr (ProjectR 0), client1)"
    by (simp add: client1_def prod_eq_iff)
  have v: "project_uid (projects (heap client1) 0) = Some 0 \<and> next_project (heap client1) = 1"
    by (simp add: run_defs client1_defs)
  show ?thesis
    using h v set_project_idempotent [OF h, of "Some [''t'']" None]
    by simp
qed

subsection \<open>\<^verbatim>\<open>set_group\<close>\<close>

text \<open>
  Claim C3. On a client without a project, \<^verbatim>\<open>set_group\<close> raises the RuntimeError
  of line 102 and leaves the world, and so the client's trial, group and project, as
  they were.
\<close>

theorem set_group_without_project:
  "project (self w) = None \<Longrightarrow>
   set_group w group0 name tags description =
     (Inl (RuntimeError ''Project needs to be set to define a group''), w)"
  by (simp add: set_group_def)

theorem set_group_without_project_witness:
  "project (self client0) = None \<and>
   set_group client0 None (Some ''g'') None None =
     (Inl (RuntimeError ''Project needs to be set to define a group''), client0)"
proof -
  have h: "project (self client0) = None"
    by (simp add: client0_def init_def set_version_def upd_trial_def new_Trial_def)
  show ?thesis using h set_group_without_project [OF h] by simp
qed

text \<open>What lines 113-119 do to a TrialGroup, in one step.\<close>

lemma bind_group_GroupR:
  "bind_group w p (GroupR i) =
     (Inr (GroupR i),
      w\<lparr>heap := (heap w)
           \<lparr>groups := (groups (heap w))(i := (groups (heap w) i)
               \<lparr>group_project_id := attr_uid (heap w) p,
                group_trials := group_trials (groups (heap w) i) @ [trial_uid (the_trial w)]\<rparr>),
            trials := (trials (heap w))(trial (self w) := (trials (heap w) (trial (self w)))
               \<lparr>trial_group_id := group_uid (groups (heap w) i)\<rparr>)\<rparr>,
        self := (self w)\<lparr>group := Some (GroupR i)\<rparr>,
        logger_calls := logger_calls w @ [LogSetGroup (GroupR i)]\<rparr>)"
  by (simp add: bind_group_def upd_trial_def the_trial_def Let_def)

lemma find_group_heap_cong:
  "(\<And>e. attr_name h' e = attr_name h e) \<Longrightarrow>
   find_group h' ds name gids g0 = find_group h ds name gids g0"
  by (induction gids arbitrary: g0) (auto split: option.splits sum.splits)

lemma attr_name_bind_group:
  "attr_name (heap (snd (bind_group w p (GroupR i)))) e = attr_name (heap w) e"
  by (cases e) (simp_all add: bind_group_GroupR)

lemma set_group_found:
  assumes "project (self w) = Some p" and "lookup_group w p group0 name = Inr (Some g)"
  shows "set_group w group0 name tags description = bind_group w p g"
  using assms by (simp add: set_group_def create_group_def)

lemma set_group_created:
  assumes "project (self w) = Some p" and "lookup_group w p group0 name = Inr None"
  shows "set_group w group0 name tags description =
           bind_group (w\<lparr>heap := snd (new_TrialGroup name tags description (heap w))\<rparr>) p
             (GroupR (next_group (heap w)))"
  using assms by (simp add: set_group_def create_group_def new_TrialGroup_def)

lemma lookup_group_bind_group:
  "lookup_group (snd (bind_group w p (GroupR i))) q group0 name = lookup_group w q group0 name"
proof -
  have "attr_groups (heap (snd (bind_group w p (GroupR i)))) q = attr_groups (heap w) q"
    by (cases q) (simp_all add: bind_group_GroupR)
  moreover have "data_store (self (snd (bind_group w p (GroupR i)))) = data_store (self w)"
    by (simp add: bind_group_GroupR)
  moreover have "\<And>ds gids. find_group (heap (snd (bind_group w p (GroupR i)))) ds name gids group0 =
      find_group (heap w) ds name gids group0"
    by (rule find_group_heap_cong) (rule attr_name_bind_group)
  ultimately show ?thesis by (simp add: lookup_group_def split: sum.splits)
qed

lemma set_group_repeat_found:
  "project (self w) = Some p \<Longrightarrow> lookup_group w p group0 name = Inr (Some (GroupR i)) \<Longrightarrow>
   \<exists>w'. set_group_repeat n w group0 name tags description = (Inr (), w') \<and>
        group_trials (groups (heap w') i) =
          group_trials (groups (heap w) i) @ replicate n (trial_uid (the_trial w))"
proof (induction n arbitrary: w)
  case 0
  then show ?case by simp
next
  case (Suc n)
  let ?w1 = "snd (bind_group w p (GroupR i))"
  have step: "set_group w group0 name tags description = (Inr (GroupR i), ?w1)"
    using Suc.prems by (simp add: set_group_found bind_group_GroupR)
  have p1: "project (self ?w1) = Some p" using Suc.prems by (simp add: bind_group_GroupR)
  have l1: "lookup_group ?w1 p group0 name = Inr (Some (GroupR i))"
    using Suc.prems by (simp add: lookup_group_bind_group)
  have t1: "trial_uid (the_trial ?w1) = trial_uid (the_trial w)"
    by (simp add: bind_group_GroupR the_trial_def)
  have g1: "group_trials (groups (heap ?w1) i) =
      group_trials (groups (heap w) i) @ [trial_uid (the_trial w)]"
    by (simp add: bind_group_GroupR)
  from Suc.IH [OF p1 l1] obtain w' where
    r: "set_group_repeat n ?w1 group0 name tags description = (Inr (), w')" and
    g: "group_trials (groups (heap w') i) =
          group_trials (groups (heap ?w1) i) @ replicate n (trial_uid (the_trial ?w1))"
    by blast
  have "set_group_repeat (Suc n) w group0 name tags description = (Inr (), w')"
    using step r by simp
  moreover have "group_trials (groups (heap w') i) =
      group_trials (groups (heap w) i) @ replicate (Suc n) (trial_uid (the_trial w))"
    using g g1 t1 by (simp add: replicate_app_Cons_same)
  ultimately show ?case by blast
qed


text \<open>
  Claim C9. A call to \<^verbatim>\<open>set_group\<close> that creates a TrialGroup (the look-up found
  no group of that name and none was passed) returns the new group and leaves the current
  project as it was: the same project is current, its group ids and every Project object
  are unchanged, and so is the storage. The new group's \<^verbatim>\<open>project_id\<close> is the
  project's uid all the same.
\<close>

theorem set_group_new_group_not_registered:
  assumes "project (self w) = Some p" and "lookup_group w p group0 name = Inr None"
  shows "fst (set_group w group0 name tags description) = Inr (GroupR (next_group (heap w))) \<and>
         project (self (snd (set_group w group0 name tags description))) = Some p \<and>
         attr_groups (heap (snd (set_group w group0 name tags description))) p =
           attr_groups (heap w) p \<and>
         projects (heap (snd (set_group w group0 name tags description))) = projects (heap w) \<and>
         data_store (self (snd (set_group w group0 name tags description))) =
           data_store (self w) \<and>
         group_project_id
           (groups (heap (snd (set_group w group0 name tags description))) (next_group (heap w))) =
           attr_uid (heap w) p"
proof -
  let ?w0 = "w\<lparr>heap := snd (new_TrialGroup name tags description (heap w))\<rparr>"
  let ?i = "next_group (heap w)"
  have eq: "set_group w group0 name tags description = bind_group ?w0 p (GroupR ?i)"
    using assms by (rule set_group_created)
  have pr: "projects (heap ?w0) = projects (heap w)"
    by (simp add: new_TrialGroup_def)
  have u: "attr_uid (heap ?w0) p = attr_uid (heap w) p"
    using assms(2) by (cases p) (simp_all add: new_TrialGroup_def lookup_group_def)
  have g: "attr_groups (heap (snd (bind_group ?w0 p (GroupR ?i)))) p = attr_groups (heap w) p"
    by (cases p) (simp_all add: bind_group_GroupR new_TrialGroup_def)
  show ?thesis
    unfolding eq using assms(1) pr u g by (simp add: bind_group_GroupR)
qed

theorem set_group_new_group_not_registered_witness:
  "project (self client1) = Some (ProjectR 0) \<and>
   lookup_group client1 (ProjectR 0) None (Some ''g'') = Inr None \<and>
   fst (set_group client1 None (Some ''g'') None None) = Inr (GroupR 0) \<and>
   project_groups (projects (heap (snd (set_group client1 None (Some ''g'') None None))) 0) = [] \<and>
   group_project_id (groups (heap (snd (set_group client1 None (Some ''g'') None None))) 0) =
     Some 0"
proof -
  have h1: "project (self client1) = Some (ProjectR 0)"
    by (simp add: run_defs client1_defs)
  have h2: "lookup_group client1 (ProjectR 0) None (Some ''g'') = Inr None"
    by (simp add: run_defs client1_defs)
  have v: "next_group (heap client1) = 0 \<and> attr_uid (heap client1) (ProjectR 0) = Some 0 \<and>
           project_groups (projects (heap client1) 0) = []"
    by (simp add: run_defs client1_defs)
  show ?thesis
    using h1 h2 v set_group_new_group_not_registered [OF h1 h2, of None None]
    by simp
qed

text \<open>
  Claim C10. Every call to \<^verbatim>\<open>set_group\<close> that returns appends the trial's uid
  to the trials of the group it returns: a group it created holds exactly that uid, a
  group it found (or was passed) holds its former trials followed by that uid. So \<open>n\<close>
  calls that refer to the same group leave \<open>n\<close> more entries of the trial's uid in the
  list, duplicates included.
\<close>

theorem set_group_appends_trial:
  assumes "project (self w) = Some p"
  shows "(lookup_group w p group0 name = Inr None \<longrightarrow>
            fst (set_group w group0 name tags description) =
              Inr (GroupR (next_group (heap w))) \<and>
            group_trials (groups (heap (snd (set_group w group0 name tags description)))
              (next_group (heap w))) = [trial_uid (the_trial w)]) \<and>
         (lookup_group w p group0 name = Inr (Some (GroupR i)) \<longrightarrow>
            fst (set_group w group0 name tags description) = Inr (GroupR i) \<and>
            group_trials (groups (heap (snd (set_group w group0 name tags description))) i) =
              group_trials (groups (heap w) i) @ [trial_uid (the_trial w)]) \<and>
         (lookup_group w p group0 name = Inr (Some (GroupR i)) \<longrightarrow>
            (\<exists>w'. set_group_repeat n w group0 name tags description = (Inr (), w') \<and>
                  group_trials (groups (heap w') i) =
                    group_trials (groups (heap w) i) @ replicate n (trial_uid (the_trial w))))"
proof (intro conjI impI)
  assume l: "lookup_group w p group0 name = Inr None"
  let ?w0 = "w\<lparr>heap := snd (new_TrialGroup name tags description (heap w))\<rparr>"
  have eq: "set_group w group0 name tags description =
      bind_group ?w0 p (GroupR (next_group (heap w)))"
    using assms l by (rule set_group_created)
  show "fst (set_group w group0 name tags description) = Inr (GroupR (next_group (heap w)))"
    unfolding eq by (simp add: bind_group_GroupR)
  show "group_trials (groups (heap (snd (set_group w group0 name tags description)))
          (next_group (heap w))) = [trial_uid (the_trial w)]"
    unfolding eq by (simp add: bind_group_GroupR new_TrialGroup_def the_trial_def)
next
  assume l: "lookup_group w p group0 name = Inr (Some (GroupR i))"
  have eq: "set_group w group0 name tags description = bind_group w p (GroupR i)"
    using assms l by (rule set_group_found)
  show "fst (set_group w group0 name tags description) = Inr (GroupR i)"
    unfolding eq by (simp add: bind_group_GroupR)
  show "group_trials (groups (heap (snd (set_group w group0 name tags description))) i) =
          group_trials (groups (heap w) i) @ [trial_uid (the_trial w)]"
    unfolding eq by (simp add: bind_group_GroupR)
next
  assume l: "lookup_group w p group0 name = Inr (Some (GroupR i))"
  with assms show "\<exists>w'. set_group_repeat n w group0 name tags description = (Inr (), w') \<and>
      group_trials (groups (heap w') i) =
        group_trials (groups (heap w) i) @ replicate n (trial_uid (the_trial w))"
    by (rule set_group_repeat_found)
qed


theorem set_group_appends_trial_witness:
  "project (self client_stored) = Some (ProjectR 0) \<and>
   lookup_group client_stored (ProjectR 0) None (Some ''g'') = Inr (Some (GroupR 0)) \<and>
   fst (set_group client_stored None (Some ''g'') None None) = Inr (GroupR 0) \<and>
   group_trials (groups (heap (snd (set_group client_stored None (Some ''g'') None None))) 0) =
     [Some 2, Some 3] \<and>
   (\<exists>w'. set_group_repeat 3 client_stored None (Some ''g'') None None = (Inr (), w') \<and>
         group_trials (groups (heap w') 0) = [Some 2, Some 3, Some 3, Some 3]) \<and>
   project (self client1) = Some (ProjectR 0) \<and>
   lookup_group client1 (ProjectR 0) None (Some ''g'') = Inr None \<and>
   fst (set_group client1 None (Some ''g'') None None) = Inr (GroupR 0) \<and>
   group_trials (groups (heap (snd (set_group client1 None (Some ''g'') None None))) 0) =
     [Some 1]"
proof -
  have h1: "project (self client_stored) = Some (ProjectR 0)"
    by (simp add: run_defs client_stored_def client0_def stored_file_def empty_heap_def)
  have h2: "lookup_group client_stored (ProjectR 0) None (Some ''g'') = Inr (Some (GroupR 0))"
    by (simp add: run_defs client_stored_def client0_def stored_file_def empty_heap_def)
  have v: "group_trials (groups (heap client_stored) 0) = [Some 2] \<and>
           trial_uid (the_trial client_stored) = Some 3"
    by (simp add: run_defs client_stored_def client0_def stored_file_def empty_heap_def)
  have k1: "project (self client1) = Some (ProjectR 0)"
    by (simp add: run_defs client1_defs)
  have k2: "lookup_group client1 (ProjectR 0) None (Some ''g'') = Inr None"
    by (simp add: run_defs client1_defs)
  have u: "next_group (heap client1) = 0 \<and> trial_uid (the_trial client1) = Some 1"
    by (simp add: run_defs client1_defs)
  show ?thesis
    using h1 h2 v k1 k2 u
      set_group_appends_trial [OF h1, of None "Some ''g''" None None 0 3]
      set_group_appends_trial [OF k1, of None "Some ''g''" None None 0 0]
    by (simp add: numeral_3_eq_3)
qed

text \<open>
  Claim C1. The claim is that two calls of \<^verbatim>\<open>set_group\<close> with the same name yield
  one TrialGroup. On a new client, after \<^verbatim>\<open>set_project(name='p')\<close>, the two calls
  \<^verbatim>\<open>set_group(name='g')\<close> return two TrialGroup objects, each holding the trial's
  uid once: the group the first call created is registered nowhere, so the second call's
  look-up does not find it.
\<close>

theorem set_group_twice_creates_two_groups:
  "fst (set_group client1 None (Some ''g'') None None) = Inr (GroupR 0) \<and>
   fst (set_group client2 None (Some ''g'') None None) = Inr (GroupR 1) \<and>
   group_name (groups (heap client3) 0) = Some ''g'' \<and>
   group_name (groups (heap client3) 1) = Some ''g'' \<and>
   group_trials (groups (heap client3) 0) = [Some 1] \<and>
   group_trials (groups (heap client3) 1) = [Some 1] \<and>
   project_groups (projects (heap client3) 0) = []"
  by (simp add: run_defs client3_def client2_def client1_defs)

subsection \<open>\<^verbatim>\<open>__getattr__\<close>\<close>

text \<open>
  Claim C4. For an attribute name that is not defined on the client, the access gives the
  Logger's attribute when the Logger has it, otherwise the backend's attribute when the
  backend has it, and raises AttributeError when neither has it.
\<close>

theorem getattr_delegation:
  "defined item = None \<Longrightarrow>
   client_attr defined logger item =
     (case logger_attrs logger item of
        Some v \<Rightarrow> Inr v
      | None \<Rightarrow>
          (case backend_attrs logger item of
             Some v \<Rightarrow> Inr v
           | None \<Rightarrow> Inl (AttributeError item)))"
  by (simp add: client_attr_def dunder_getattr_def hasattr_def getattr_def split: option.splits)

theorem getattr_delegation_witness:
  "[''save'' \<mapsto> (0::nat)] ''flush'' = None \<and>
   client_attr [''save'' \<mapsto> 0]
     \<lparr>logger_attrs = [''log_metrics'' \<mapsto> 1], backend_attrs = [''flush'' \<mapsto> 2]\<rparr> ''flush'' =
     Inr (2::nat)"
proof -
  have h: "[''save'' \<mapsto> (0::nat)] ''flush'' = None" by simp
  show ?thesis
    using h getattr_delegation [of "[''save'' \<mapsto> (0::nat)]" "''flush''"
      "\<lparr>logger_attrs = [''log_metrics'' \<mapsto> 1], backend_attrs = [''flush'' \<mapsto> 2]\<rparr>"]
    by simp
qed

end
